theory Spec2Isabelle
  imports Main
begin

section \<open>Data model\<close>

text \<open>
  The blog backend keeps two collections, posts and users. A post embeds its likes and
  its comments. Identifiers, roles and statuses are strings in the controllers and are
  compared as strings (\<^verbatim>\<open>post.status !== "published"\<close>, \<^verbatim>\<open>req.user.role !== "admin"\<close>),
  so the model keeps them as strings. A \<open>char\<close> stands for a code unit in the range
  U+0000..U+00FF.
\<close>

record like =
  like_user :: string

record comment =
  comment_user :: string
  comment_text :: string

record post =
  post_id :: string
  title :: string
  content :: string
  excerpt :: "string option"
  author :: string
  status :: string
  slug :: string
  category :: "string option"
  tags :: "string list"
  views :: int
  likes :: "like list"
  comments :: "comment list"

record user =
  user_id :: string
  name :: string
  email :: string
  role :: string
  isActive :: bool

record db =
  posts :: "post list"
  users :: "user list"

text \<open>The identity that the authentication middleware attaches to a request as \<^verbatim>\<open>req.user\<close>.\<close>

record identity =
  uid :: string
  urole :: string

record query_params =
  q_page :: "string option"
  q_limit :: "string option"
  q_category :: "string option"
  q_tags :: "string option"
  q_search :: "string option"
  q_author :: "string option"
  q_sort :: "string option"
  q_role :: "string option"
  q_isActive :: "string option"

text \<open>
  The fields of a JSON request body that the controllers and the route validators read,
  and \<open>author\<close>, which a client may send as well. \<open>None\<close> is an absent field.
\<close>

record body_params =
  b_text :: "string option"
  b_title :: "string option"
  b_content :: "string option"
  b_excerpt :: "string option"
  b_category :: "string option"
  b_tags :: "string list option"
  b_status :: "string option"
  b_author :: "string option"

record request =
  req_user :: "identity option"
  params_id :: string
  params_slug :: string
  query :: query_params
  body :: body_params

section \<open>Errors (middlewares/errorHandler.js)\<close>

text \<open>
  \<open>ErrorResponse m c\<close> is the controllers' own error class, handed to \<^verbatim>\<open>next\<close>.
  \<open>ValidationFailed\<close> is the 400 answer written directly when the route validators
  report errors. \<open>Thrown n\<close> is any other exception with \<^verbatim>\<open>err.name = n\<close> caught by a
  controller's \<^verbatim>\<open>try\<close> block. \<open>statusCode\<close> is the status the error handler answers with.
\<close>

datatype error =
  ErrorResponse string nat
  | ValidationFailed "string list"
  | Thrown string

fun statusCode :: "error \<Rightarrow> nat" where
  "statusCode (ErrorResponse m c) = (if c = 0 then 500 else c)"
| "statusCode (ValidationFailed es) = 400"
| "statusCode (Thrown n) =
     (if n = ''CastError'' then 404
      else if n = ''ValidationError'' then 400
      else if n = ''JsonWebTokenError'' \<or> n = ''TokenExpiredError'' then 401
      else 500)"

section \<open>The document store\<close>

text \<open>
  A collection is the list of its documents. \<open>findById\<close> and \<open>findOne\<close> return the
  first match, \<open>save\<close> writes a loaded document back under its id, and
  \<open>findByIdAndDelete\<close> removes the first document with the id.
\<close>

definition findById :: "post list \<Rightarrow> string \<Rightarrow> post option" where
  "findById ps i = find (\<lambda>p. post_id p = i) ps"

definition findOneBySlug :: "post list \<Rightarrow> string \<Rightarrow> post option" where
  "findOneBySlug ps s = find (\<lambda>p. slug p = s) ps"

definition findUserById :: "user list \<Rightarrow> string \<Rightarrow> user option" where
  "findUserById us i = find (\<lambda>u. user_id u = i) us"

definition save :: "post \<Rightarrow> post list \<Rightarrow> post list" where
  "save p ps = map (\<lambda>q. if post_id q = post_id p then p else q) ps"

fun findByIdAndDelete :: "string \<Rightarrow> post list \<Rightarrow> post list" where
  "findByIdAndDelete i [] = []"
| "findByIdAndDelete i (p # ps) =
     (if post_id p = i then ps else p # findByIdAndDelete i ps)"

section \<open>Engagement: likes\<close>

record like_result =
  message :: string
  likesCount :: nat
  isLiked :: bool

text \<open>
  \<^verbatim>\<open>likePost\<close> (PUT /api/v1/posts/:id/like). The route is mounted behind the
  authentication middleware; a request without \<^verbatim>\<open>req.user\<close> would raise a TypeError
  at \<^verbatim>\<open>req.user.id\<close>, after the post has been looked up.
\<close>

definition likePost :: "db \<Rightarrow> request \<Rightarrow> (error + like_result) \<times> db" where
  "likePost d req =
     (case findById (posts d) (params_id req) of
        None \<Rightarrow> (Inl (ErrorResponse ''Post not found'' 404), d)
      | Some p \<Rightarrow>
          (case req_user req of
             None \<Rightarrow> (Inl (Thrown ''TypeError''), d)
           | Some u \<Rightarrow>
               let liked = list_ex (\<lambda>l. like_user l = uid u) (likes p);
                   p' = (if liked
                         then p\<lparr>likes := filter (\<lambda>l. like_user l \<noteq> uid u) (likes p)\<rparr>
                         else p\<lparr>likes := likes p @ [\<lparr>like_user = uid u\<rparr>]\<rparr>)
               in (Inr \<lparr>message = (if liked then ''Post unliked'' else ''Post liked''),
                        likesCount = length (likes p'),
                        isLiked = \<not> liked\<rparr>,
                   d\<lparr>posts := save p' (posts d)\<rparr>)))"

text \<open>A sequence of like requests, each run on the store the previous one left.\<close>

fun likePosts :: "db \<Rightarrow> request list \<Rightarrow> db" where
  "likePosts d [] = d"
| "likePosts d (r # rs) = likePosts (snd (likePost d r)) rs"

definition likesUnique :: "post \<Rightarrow> bool" where
  "likesUnique p = distinct (map like_user (likes p))"

text \<open>How many entries of the likes belong to a user.\<close>

definition likedTimes :: "post \<Rightarrow> string \<Rightarrow> nat" where
  "likedTimes p i = length (filter (\<lambda>l. like_user l = i) (likes p))"

section \<open>Engagement: comments\<close>

text \<open>
  \<^verbatim>\<open>String.prototype.trim\<close> removes white space and line terminators from both ends.
  \<open>isWhiteSpace\<close> lists the ones in the range of \<open>char\<close>: TAB, LF, VT, FF, CR, SPACE
  and NBSP.
\<close>

definition isWhiteSpace :: "char \<Rightarrow> bool" where
  "isWhiteSpace c = (of_char c \<in> {9, 10, 11, 12, 13, 32, 160 :: nat})"

definition trim :: "string \<Rightarrow> string" where
  "trim s = rev (dropWhile isWhiteSpace (rev (dropWhile isWhiteSpace s)))"

text \<open>
  \<^verbatim>\<open>addComment\<close> (POST /api/v1/posts/:id/comments). The guard \<^verbatim>\<open>!text\<close> holds for an
  absent field and for the empty string. The Post schema (models/Post.js) is not among
  the sources; \<^verbatim>\<open>post.save()\<close> runs its validators on the pushed sub-document and raises a
  ValidationError when they reject it. The schema's verdict on a comment is the
  parameter \<open>validateComment\<close>.
\<close>

definition addComment ::
  "(comment \<Rightarrow> bool) \<Rightarrow> db \<Rightarrow> request \<Rightarrow> (error + comment) \<times> db" where
  "addComment validateComment d req =
     (case b_text (body req) of
        None \<Rightarrow> (Inl (ErrorResponse ''Comment text is required'' 400), d)
      | Some text \<Rightarrow>
          if text = [] then (Inl (ErrorResponse ''Comment text is required'' 400), d)
          else
            (case findById (posts d) (params_id req) of
               None \<Rightarrow> (Inl (ErrorResponse ''Post not found'' 404), d)
             | Some p \<Rightarrow>
                 (case req_user req of
                    None \<Rightarrow> (Inl (Thrown ''TypeError''), d)
                  | Some u \<Rightarrow>
                      let newComment = \<lparr>comment_user = uid u, comment_text = trim text\<rparr>;
                          p' = p\<lparr>comments := comments p @ [newComment]\<rparr>
                      in if validateComment newComment
                         then (Inr (last (comments p')), d\<lparr>posts := save p' (posts d)\<rparr>)
                         else (Inl (Thrown ''ValidationError''), d))))"

text \<open>
  Modelled from the spec: the validators of the Post schema (models/Post.js) on a
  comment. Section 4.3 has a comment rejected with a validation error when its text is
  empty; the schema is taken to require a text that is not empty, and nothing else.
\<close>

definition commentSchema :: "comment \<Rightarrow> bool" where
  "commentSchema c = (comment_text c \<noteq> [])"

section \<open>Reading a post\<close>

text \<open>
  \<^verbatim>\<open>getPost\<close> and \<^verbatim>\<open>getPostBySlug\<close> differ in the lookup only; from the visibility check
  on, their bodies are the same text, modelled once as \<open>servePost\<close>. The populated
  author's \<^verbatim>\<open>_id\<close> is the stored author id.
\<close>

definition servePost :: "db \<Rightarrow> request \<Rightarrow> post \<Rightarrow> (error + post) \<times> db" where
  "servePost d req p =
     (if status p \<noteq> ''published'' \<and>
         (case req_user req of
            None \<Rightarrow> True
          | Some u \<Rightarrow> uid u \<noteq> author p \<and> urole u \<noteq> ''admin'')
      then (Inl (ErrorResponse ''Post not found'' 404), d)
      else if (case req_user req of None \<Rightarrow> True | Some u \<Rightarrow> uid u \<noteq> author p)
      then (let p' = p\<lparr>views := views p + 1\<rparr>
            in (Inr p', d\<lparr>posts := save p' (posts d)\<rparr>))
      else (Inr p, d))"

definition getPost :: "db \<Rightarrow> request \<Rightarrow> (error + post) \<times> db" where
  "getPost d req =
     (case findById (posts d) (params_id req) of
        None \<Rightarrow> (Inl (ErrorResponse ''Post not found'' 404), d)
      | Some p \<Rightarrow> servePost d req p)"

definition getPostBySlug :: "db \<Rightarrow> request \<Rightarrow> (error + post) \<times> db" where
  "getPostBySlug d req =
     (case findOneBySlug (posts d) (params_slug req) of
        None \<Rightarrow> (Inl (ErrorResponse ''Post not found'' 404), d)
      | Some p \<Rightarrow> servePost d req p)"

subsection \<open>The read routes\<close>

text \<open>
  routes/postRoutes.js registers \<^verbatim>\<open>GET /slug/:slug\<close> and \<^verbatim>\<open>GET /:id\<close> before
  \<^verbatim>\<open>router.use(protect)\<close>, and app.js puts no authentication in front of the router. A
  request reaches \<^verbatim>\<open>getPost\<close> and \<^verbatim>\<open>getPostBySlug\<close> as it arrived: whoever its bearer
  token belongs to, no middleware has set \<^verbatim>\<open>req.user\<close>.
\<close>

record http_request =
  bearer :: "identity option"
  url_id :: string
  url_slug :: string
  url_query :: query_params
  json_body :: body_params

definition arrived :: "http_request \<Rightarrow> request" where
  "arrived h =
     \<lparr>req_user = None, params_id = url_id h, params_slug = url_slug h,
      query = url_query h, body = json_body h\<rparr>"

definition routeGetPost :: "db \<Rightarrow> http_request \<Rightarrow> (error + post) \<times> db" where
  "routeGetPost d h = getPost d (arrived h)"

definition routeGetPostBySlug :: "db \<Rightarrow> http_request \<Rightarrow> (error + post) \<times> db" where
  "routeGetPostBySlug d h = getPostBySlug d (arrived h)"

section \<open>Updating and deleting a post\<close>

text \<open>
  The route validators of routes/postRoutes.js. A sanitizer (\<^verbatim>\<open>trim\<close>) writes the trimmed
  value back into the body; an absent field is validated as the empty string unless the
  chain is \<^verbatim>\<open>optional\<close>. \<open>postValidation\<close> is the list of messages that
  \<^verbatim>\<open>validationResult\<close> holds.
\<close>

definition postValidation :: "body_params \<Rightarrow> string list" where
  "postValidation b =
     (let t = trim (case b_title b of None \<Rightarrow> [] | Some s \<Rightarrow> s)
      in if 5 \<le> length t \<and> length t \<le> 100 then []
         else [''Title must be between 5 and 100 characters'']) @
     (let c = trim (case b_content b of None \<Rightarrow> [] | Some s \<Rightarrow> s)
      in if 50 \<le> length c then []
         else [''Content must be at least 50 characters long'']) @
     (case b_excerpt b of
        None \<Rightarrow> []
      | Some e \<Rightarrow> if length (trim e) \<le> 300 then []
                  else [''Excerpt cannot be more than 300 characters'']) @
     (case b_category b of
        None \<Rightarrow> []
      | Some c \<Rightarrow> if 2 \<le> length (trim c) \<and> length (trim c) \<le> 50 then []
                  else [''Category must be between 2 and 50 characters'']) @
     (case b_status b of
        None \<Rightarrow> []
      | Some s \<Rightarrow> if s \<in> set [''draft'', ''published'', ''archived''] then []
                  else [''Status must be draft, published, or archived''])"

definition sanitize :: "body_params \<Rightarrow> body_params" where
  "sanitize b =
     b\<lparr>b_title := map_option trim (b_title b),
       b_content := map_option trim (b_content b),
       b_excerpt := map_option trim (b_excerpt b),
       b_category := map_option trim (b_category b)\<rparr>"

text \<open>
  \<^verbatim>\<open>Post.findByIdAndUpdate(id, req.body, ...)\<close> sets every field that the body carries
  and keeps the others.
\<close>

definition applyUpdate :: "body_params \<Rightarrow> post \<Rightarrow> post" where
  "applyUpdate b p =
     p\<lparr>title := (case b_title b of None \<Rightarrow> title p | Some v \<Rightarrow> v),
       content := (case b_content b of None \<Rightarrow> content p | Some v \<Rightarrow> v),
       excerpt := (case b_excerpt b of None \<Rightarrow> excerpt p | Some v \<Rightarrow> Some v),
       category := (case b_category b of None \<Rightarrow> category p | Some v \<Rightarrow> Some v),
       tags := (case b_tags b of None \<Rightarrow> tags p | Some v \<Rightarrow> v),
       status := (case b_status b of None \<Rightarrow> status p | Some v \<Rightarrow> v),
       author := (case b_author b of None \<Rightarrow> author p | Some v \<Rightarrow> v)\<rparr>"

fun findByIdAndUpdate :: "string \<Rightarrow> body_params \<Rightarrow> post list \<Rightarrow> post list" where
  "findByIdAndUpdate i b [] = []"
| "findByIdAndUpdate i b (p # ps) =
     (if post_id p = i then applyUpdate b p # ps else p # findByIdAndUpdate i b ps)"

text \<open>\<^verbatim>\<open>updatePost\<close> (PUT /api/v1/posts/:id) answers with the updated document.\<close>

definition updatePost :: "db \<Rightarrow> request \<Rightarrow> (error + post option) \<times> db" where
  "updatePost d req =
     (case findById (posts d) (params_id req) of
        None \<Rightarrow> (Inl (ErrorResponse ''Post not found'' 404), d)
      | Some p \<Rightarrow>
          (case req_user req of
             None \<Rightarrow> (Inl (Thrown ''TypeError''), d)
           | Some u \<Rightarrow>
               if author p \<noteq> uid u \<and> urole u \<noteq> ''admin''
               then (Inl (ErrorResponse ''Not authorized to update this post'' 403), d)
               else if postValidation (body req) \<noteq> []
               then (Inl (ValidationFailed (postValidation (body req))), d)
               else
                 (let ps' = findByIdAndUpdate (params_id req) (sanitize (body req)) (posts d)
                  in (Inr (findById ps' (params_id req)), d\<lparr>posts := ps'\<rparr>))))"

text \<open>\<^verbatim>\<open>deletePost\<close> (DELETE /api/v1/posts/:id).\<close>

definition deletePost :: "db \<Rightarrow> request \<Rightarrow> (error + unit) \<times> db" where
  "deletePost d req =
     (case findById (posts d) (params_id req) of
        None \<Rightarrow> (Inl (ErrorResponse ''Post not found'' 404), d)
      | Some p \<Rightarrow>
          (case req_user req of
             None \<Rightarrow> (Inl (Thrown ''TypeError''), d)
           | Some u \<Rightarrow>
               if author p \<noteq> uid u \<and> urole u \<noteq> ''admin''
               then (Inl (ErrorResponse ''Not authorized to delete this post'' 403), d)
               else (Inr (), d\<lparr>posts := findByIdAndDelete (params_id req) (posts d)\<rparr>)))"

section \<open>Listings\<close>

subsection \<open>Numbers\<close>

text \<open>
  Every JavaScript number is a double. The numbers of the listing controllers come from
  \<^verbatim>\<open>parseInt\<close>, from a count of documents and from \<open>+\<close>, \<open>-\<close> and \<open>*\<close> on such numbers, so
  each one is an integer that a double holds exactly, an infinity or NaN. \<open>Finite n\<close>
  is the double whose value is the integer \<open>n\<close>; zero stands for both zeros, which the
  controllers cannot tell apart. An operation answers with its exact result rounded to
  the nearest double, ties to the even significand: \<open>roundToDouble\<close> keeps 53
  significant bits and overflows to an infinity above \<open>(2 ^ 53 - 1) * 2 ^ 971\<close>.
\<close>

datatype number = Finite int | PosInfinity | NegInfinity | NaN

fun excessBits :: "nat \<Rightarrow> nat" where
  "excessBits m = (if m < 2 ^ 53 then 0 else Suc (excessBits (m div 2)))"

declare excessBits.simps [simp del]

definition roundToDouble :: "int \<Rightarrow> number" where
  "roundToDouble n =
     (let m = nat \<bar>n\<bar>
      in if m < 2 ^ 53 then Finite n
         else
           (let e = excessBits m;
                q = m div 2 ^ e;
                r = m mod 2 ^ e;
                q' = (if 2 ^ e < 2 * r \<or> (2 * r = 2 ^ e \<and> odd q) then q + 1 else q)
            in if 971 < e \<or> (e = 971 \<and> q' = 2 ^ 53)
               then (if n < 0 then NegInfinity else PosInfinity)
               else Finite ((if n < 0 then - 1 else 1) * int (q' * 2 ^ e))))"

fun signOf :: "number \<Rightarrow> int" where
  "signOf (Finite a) = sgn a"
| "signOf PosInfinity = 1"
| "signOf NegInfinity = - 1"
| "signOf NaN = 0"

fun plus_number :: "number \<Rightarrow> number \<Rightarrow> number" where
  "plus_number NaN y = NaN"
| "plus_number x NaN = NaN"
| "plus_number (Finite a) (Finite b) = roundToDouble (a + b)"
| "plus_number PosInfinity NegInfinity = NaN"
| "plus_number NegInfinity PosInfinity = NaN"
| "plus_number (Finite a) y = y"
| "plus_number x y = x"

fun uminus_number :: "number \<Rightarrow> number" where
  "uminus_number (Finite a) = Finite (- a)"
| "uminus_number PosInfinity = NegInfinity"
| "uminus_number NegInfinity = PosInfinity"
| "uminus_number NaN = NaN"

definition minus_number :: "number \<Rightarrow> number \<Rightarrow> number" where
  "minus_number x y = plus_number x (uminus_number y)"

fun times_number :: "number \<Rightarrow> number \<Rightarrow> number" where
  "times_number NaN y = NaN"
| "times_number x NaN = NaN"
| "times_number (Finite a) (Finite b) = roundToDouble (a * b)"
| "times_number x y =
     (if signOf x * signOf y = 0 then NaN
      else if 0 < signOf x * signOf y then PosInfinity else NegInfinity)"


subsection \<open>Paging parameters\<close>

text \<open>
  \<^verbatim>\<open>parseInt(s, 10)\<close>: leading white space is skipped, one sign is read, then the longest
  run of decimal digits; no digit gives NaN. The answer is the number nearest to the
  value of the digits (an engine may approximate a run of more than 20 significant
  digits; the model rounds the exact value).
  \<^verbatim>\<open>parseInt(x, 10) || dflt\<close> takes the default for an absent parameter, for NaN and
  for zero.
\<close>

definition isDigit :: "char \<Rightarrow> bool" where
  "isDigit c = (48 \<le> (of_char c :: nat) \<and> (of_char c :: nat) \<le> 57)"

definition digitsValue :: "string \<Rightarrow> int" where
  "digitsValue ds = foldl (\<lambda>acc c. 10 * acc + (int (of_char c) - 48)) 0 ds"

definition parseInt :: "string \<Rightarrow> number" where
  "parseInt str =
     (let s = dropWhile isWhiteSpace str;
          negative = (s \<noteq> [] \<and> hd s = CHR ''-'');
          s' = (if s \<noteq> [] \<and> (hd s = CHR ''+'' \<or> hd s = CHR ''-'') then tl s else s);
          z = takeWhile isDigit s'
      in if z = [] then NaN
         else roundToDouble ((if negative then - 1 else 1) * digitsValue z))"

definition parseIntOr :: "string option \<Rightarrow> number \<Rightarrow> number" where
  "parseIntOr x dflt =
     (case x of
        None \<Rightarrow> dflt
      | Some s \<Rightarrow>
          (if parseInt s = NaN \<or> parseInt s = Finite 0 then dflt else parseInt s))"

subsection \<open>Pagination info\<close>

record page_ref =
  ref_page :: number
  ref_limit :: number

record pagination =
  next_page :: "page_ref option"
  prev_page :: "page_ref option"


record 'a listing =
  res_count :: nat
  res_total :: number
  res_pagination :: "pagination option"
  res_data :: "'a list"

subsection \<open>Queries\<close>

text \<open>
  The query objects that the controllers build field by field. An absent field puts no
  condition on a document. What the text index (\<^verbatim>\<open>$text\<close>), a regular expression
  (\<^verbatim>\<open>$regex\<close>) and a cursor (\<^verbatim>\<open>sort\<close>, \<^verbatim>\<open>limit\<close>, \<^verbatim>\<open>skip\<close>) do belongs to the database,
  not to this code: they are parameters, collected in \<open>store_ops\<close>. A cursor is given
  the sort key with its direction, the limit, the number of documents to skip and the
  matching documents; it returns a page or fails.
\<close>

type_synonym 'a cursor =
  "string \<times> int \<Rightarrow> number \<Rightarrow> number \<Rightarrow> 'a list \<Rightarrow> error + 'a list"

record store_ops =
  textSearch :: "string \<Rightarrow> post \<Rightarrow> bool"
  regexMatch :: "string \<Rightarrow> string \<Rightarrow> bool"
  postCursor :: "post cursor"
  userCursor :: "user cursor"

record post_query =
  f_status :: "string option"
  f_category :: "string option"
  f_tags_in :: "string list option"
  f_text_search :: "string option"
  f_author :: "string option"


definition matchesPost :: "store_ops \<Rightarrow> post_query \<Rightarrow> post \<Rightarrow> bool" where
  "matchesPost st f p =
     ((case f_status f of None \<Rightarrow> True | Some s \<Rightarrow> status p = s) \<and>
      (case f_category f of None \<Rightarrow> True | Some c \<Rightarrow> category p = Some c) \<and>
      (case f_tags_in f of None \<Rightarrow> True | Some ts \<Rightarrow> list_ex (\<lambda>t. t \<in> set ts) (tags p)) \<and>
      (case f_text_search f of None \<Rightarrow> True | Some s \<Rightarrow> textSearch st s p) \<and>
      (case f_author f of None \<Rightarrow> True | Some a \<Rightarrow> author p = a))"


text \<open>\<^verbatim>\<open>countDocuments\<close> resolves to the number of matching documents, as a number.\<close>

definition countDocuments :: "('a \<Rightarrow> bool) \<Rightarrow> 'a list \<Rightarrow> number" where
  "countDocuments m docs = roundToDouble (int (length (filter m docs)))"


fun split :: "char \<Rightarrow> string \<Rightarrow> string list" where
  "split sep [] = [[]]"
| "split sep (c # cs) =
     (if c = sep then [] # split sep cs
      else (case split sep cs of
              [] \<Rightarrow> [[c]]
            | w # ws \<Rightarrow> (c # w) # ws))"

subsection \<open>Listing posts\<close>




subsection \<open>Listing users\<close>



subsection \<open>Listing one user's posts\<close>

text \<open>
  \<^verbatim>\<open>getUserPosts\<close> (GET /api/v1/users/:id/posts). \<^verbatim>\<open>req.user?.id\<close> is undefined for a
  request without identity, and undefined differs from every id and from \<^verbatim>\<open>"admin"\<close>.
\<close>

definition userPostsQuery :: "request \<Rightarrow> post_query" where
  "userPostsQuery req =
     \<lparr>f_status =
        (if map_option uid (req_user req) \<noteq> Some (params_id req) \<and>
            map_option urole (req_user req) \<noteq> Some ''admin''
         then Some ''published'' else None),
      f_category = None,
      f_tags_in = None,
      f_text_search = None,
      f_author = Some (params_id req)\<rparr>"

definition getUserPosts :: "store_ops \<Rightarrow> db \<Rightarrow> request \<Rightarrow> error + post listing" where
  "getUserPosts st d req =
     (let page = parseIntOr (q_page (query req)) (Finite 1);
          limit = parseIntOr (q_limit (query req)) (Finite 10);
          startIndex = times_number (minus_number page (Finite 1)) limit
      in case findUserById (users d) (params_id req) of
           None \<Rightarrow> Inl (ErrorResponse ''User not found'' 404)
         | Some usr \<Rightarrow>
             (let qry = userPostsQuery req;
                  totalDocs = countDocuments (matchesPost st qry) (posts d)
              in case postCursor st (''createdAt'', - 1) limit startIndex
                        (filter (matchesPost st qry) (posts d)) of
                   Inl e \<Rightarrow> Inl e
                 | Inr found \<Rightarrow>
                     Inr \<lparr>res_count = length found,
                          res_total = totalDocs,
                          res_pagination = None,
                          res_data = found\<rparr>))"

subsection \<open>The paging parameters of a request\<close>

text \<open>
  Short names for the three values that every listing controller computes first:
  \<^verbatim>\<open>page\<close>, \<^verbatim>\<open>limit\<close> and \<^verbatim>\<open>startIndex\<close>.
\<close>

abbreviation pageParam :: "request \<Rightarrow> number" where
  "pageParam req \<equiv> parseIntOr (q_page (query req)) (Finite 1)"

abbreviation limitParam :: "request \<Rightarrow> number" where
  "limitParam req \<equiv> parseIntOr (q_limit (query req)) (Finite 10)"

abbreviation startIndex :: "request \<Rightarrow> number" where
  "startIndex req \<equiv> times_number (minus_number (pageParam req) (Finite 1)) (limitParam req)"

section \<open>Example data\<close>

text \<open>
  Three users (Carol is an administrator) and two posts of Alice, one draft and one
  published, used to run the controllers on concrete requests.
\<close>

definition alice :: identity where
  "alice = \<lparr>uid = ''u1'', urole = ''user''\<rparr>"

definition bob :: identity where
  "bob = \<lparr>uid = ''u2'', urole = ''user''\<rparr>"

definition carol :: identity where
  "carol = \<lparr>uid = ''u3'', urole = ''admin''\<rparr>"

definition draftPost :: post where
  "draftPost =
     \<lparr>post_id = ''p1'', title = ''Notes on testing'', content = ''Work in progress.'',
      excerpt = None, author = ''u1'', status = ''draft'', slug = ''notes-on-testing'',
      category = None, tags = [], views = 0, likes = [], comments = []\<rparr>"

definition publishedPost :: post where
  "publishedPost =
     \<lparr>post_id = ''p2'', title = ''Hello world'', content = ''A first article.'',
      excerpt = None, author = ''u1'', status = ''published'', slug = ''hello-world'',
      category = Some ''general'', tags = [''intro''], views = 0,
      likes = [\<lparr>like_user = ''u3''\<rparr>], comments = []\<rparr>"

definition exampleDb :: db where
  "exampleDb =
     \<lparr>posts = [draftPost, publishedPost],
      users = [\<lparr>user_id = ''u1'', name = ''Alice'', email = ''alice@example.com'',
                role = ''user'', isActive = True\<rparr>,
               \<lparr>user_id = ''u2'', name = ''Bob'', email = ''bob@example.com'',
                role = ''user'', isActive = True\<rparr>,
               \<lparr>user_id = ''u3'', name = ''Carol'', email = ''carol@example.com'',
                role = ''admin'', isActive = True\<rparr>]\<rparr>"

definition noQuery :: query_params where
  "noQuery =
     \<lparr>q_page = None, q_limit = None, q_category = None, q_tags = None, q_search = None,
      q_author = None, q_sort = None, q_role = None, q_isActive = None\<rparr>"

definition noBody :: body_params where
  "noBody =
     \<lparr>b_text = None, b_title = None, b_content = None, b_excerpt = None,
      b_category = None, b_tags = None, b_status = None, b_author = None\<rparr>"

definition requestBy :: "identity option \<Rightarrow> string \<Rightarrow> request" where
  "requestBy who i =
     \<lparr>req_user = who, params_id = i, params_slug = [], query = noQuery, body = noBody\<rparr>"

text \<open>
  A comment request, and an update request by the owner whose body carries an
  \<open>author\<close> field.
\<close>

definition commentRequest :: "identity \<Rightarrow> string \<Rightarrow> string \<Rightarrow> request" where
  "commentRequest who i txt = (requestBy (Some who) i)\<lparr>body := noBody\<lparr>b_text := Some txt\<rparr>\<rparr>"

definition authorUpdate :: request where
  "authorUpdate =
     (requestBy (Some alice) ''p2'')
       \<lparr>body := noBody
          \<lparr>b_title := Some ''Hello again'',
           b_content := Some ''This article has been rewritten and is long enough now.'',
           b_author := Some ''u2''\<rparr>\<rparr>"

text \<open>
  A store whose cursor rejects a negative skip and otherwise drops and takes, whose text
  index matches titles and whose regular expressions match whole strings.
\<close>

fun skipLimit :: "'a cursor" where
  "skipLimit srt (Finite lim) (Finite skp) docs =
     (if skp < 0 \<or> lim < 0 then Inl (Thrown ''MongoServerError'')
      else Inr (take (nat lim) (drop (nat skp) docs)))"
| "skipLimit srt lim skp docs = Inl (Thrown ''MongoServerError'')"

definition exampleStore :: store_ops where
  "exampleStore =
     \<lparr>textSearch = (\<lambda>s p. s = title p),
      regexMatch = (\<lambda>s t. s = t),
      postCursor = skipLimit,
      userCursor = skipLimit\<rparr>"


text \<open>
  A store with one post whose likes hold Bob twice, and a read request carrying a
  bearer token.
\<close>

definition twiceLikedPost :: post where
  "twiceLikedPost =
     \<lparr>post_id = ''p3'', title = ''Liked twice'', content = ''Two likes by one user.'',
      excerpt = None, author = ''u1'', status = ''published'', slug = ''liked-twice'',
      category = None, tags = [], views = 0,
      likes = [\<lparr>like_user = ''u2''\<rparr>, \<lparr>like_user = ''u3''\<rparr>, \<lparr>like_user = ''u2''\<rparr>],
      comments = []\<rparr>"

definition twiceLikedDb :: db where
  "twiceLikedDb = \<lparr>posts = [twiceLikedPost], users = users exampleDb\<rparr>"

definition httpGet :: "identity option \<Rightarrow> string \<Rightarrow> http_request" where
  "httpGet who i =
     \<lparr>bearer = who, url_id = i, url_slug = [], url_query = noQuery, json_body = noBody\<rparr>"

lemmas example_defs =
  alice_def bob_def carol_def draftPost_def publishedPost_def exampleDb_def noQuery_def
  noBody_def requestBy_def

section \<open>Facts about the store\<close>

lemma findById_SomeD: "findById ps i = Some p \<Longrightarrow> p \<in> set ps \<and> post_id p = i"
  unfolding findById_def by (induction ps) (auto split: if_splits)

lemma findById_save:
  "findById ps i = Some p \<Longrightarrow> post_id p' = i \<Longrightarrow> findById (save p' ps) i = Some p'"
  unfolding findById_def save_def by (induction ps) (auto split: if_splits)

lemma set_save: "set (save p ps) \<subseteq> insert p (set ps)"
  unfolding save_def by auto

lemma length_filter_once:
  assumes "length (filter (\<lambda>y. f y = a) xs) \<le> 1" and "a \<in> f ` set xs"
  shows "Suc (length (filter (\<lambda>y. f y \<noteq> a) xs)) = length xs"
proof -
  from assms(2) have "filter (\<lambda>y. f y = a) xs \<noteq> []"
    by (auto simp: filter_empty_conv)
  then have "length (filter (\<lambda>y. f y = a) xs) \<noteq> 0" by simp
  with assms(1) have "length (filter (\<lambda>y. f y = a) xs) = 1" by linarith
  moreover have "length (filter (\<lambda>y. f y = a) xs) + length (filter (\<lambda>y. \<not> f y = a) xs) = length xs"
    by (rule sum_length_filter_compl)
  ultimately show ?thesis by simp
qed

lemma likesUnique_likedTimes: "likesUnique p \<Longrightarrow> likedTimes p i \<le> 1"
proof -
  have "distinct (map f xs) \<Longrightarrow> length (filter (\<lambda>l. f l = a) xs) \<le> 1" for f :: "like \<Rightarrow> string" and xs a
  proof (induction xs)
    case Nil
    then show ?case by simp
  next
    case (Cons x xs)
    show ?case
    proof (cases "f x = a")
      case True
      with Cons.prems have "a \<notin> f ` set xs" by auto
      then have "filter (\<lambda>l. f l = a) xs = []" by (auto simp: filter_empty_conv)
      with True show ?thesis by simp
    next
      case False
      with Cons show ?thesis by simp
    qed
  qed
  then show "likesUnique p \<Longrightarrow> likedTimes p i \<le> 1"
    by (simp add: likesUnique_def likedTimes_def)
qed

lemma likePost_found:
  assumes "findById (posts d) (params_id req) = Some p" and "req_user req = Some u"
  shows "likePost d req =
     (let liked = list_ex (\<lambda>l. like_user l = uid u) (likes p);
          p' = (if liked
                then p\<lparr>likes := filter (\<lambda>l. like_user l \<noteq> uid u) (likes p)\<rparr>
                else p\<lparr>likes := likes p @ [\<lparr>like_user = uid u\<rparr>]\<rparr>)
      in (Inr \<lparr>message = (if liked then ''Post unliked'' else ''Post liked''),
               likesCount = length (likes p'), isLiked = \<not> liked\<rparr>,
          d\<lparr>posts := save p' (posts d)\<rparr>))"
  using assms by (simp add: likePost_def)

lemma likePost_likesUnique:
  assumes "\<forall>p\<in>set (posts d). likesUnique p"
  shows "\<forall>p\<in>set (posts (snd (likePost d r))). likesUnique p"
proof (cases "findById (posts d) (params_id r)")
  case None
  with assms show ?thesis by (simp add: likePost_def)
next
  case (Some p)
  then have pin: "p \<in> set (posts d)" by (simp add: findById_SomeD)
  with assms have up: "distinct (map like_user (likes p))" by (simp add: likesUnique_def)
  show ?thesis
  proof (cases "req_user r")
    case None
    with Some assms show ?thesis by (simp add: likePost_def)
  next
    case (Some u)
    let ?liked = "list_ex (\<lambda>l. like_user l = uid u) (likes p)"
    let ?p' = "if ?liked
                then p\<lparr>likes := filter (\<lambda>l. like_user l \<noteq> uid u) (likes p)\<rparr>
                else p\<lparr>likes := likes p @ [\<lparr>like_user = uid u\<rparr>]\<rparr>"
    have "likesUnique ?p'"
      using up by (auto simp: likesUnique_def list_ex_iff distinct_map_filter)
    moreover have "posts (snd (likePost d r)) = save ?p' (posts d)"
      using \<open>findById (posts d) (params_id r) = Some p\<close> Some
      by (simp add: likePost_found Let_def)
    ultimately show ?thesis
      using assms set_save [of ?p' "posts d"] by auto
  qed
qed

lemma likePosts_preserve:
  "\<forall>p\<in>set (posts d). likesUnique p \<Longrightarrow> \<forall>p\<in>set (posts (likePosts d rs)). likesUnique p"
proof (induction rs arbitrary: d)
  case Nil
  then show ?case by simp
next
  case (Cons r rs)
  from Cons.prems have "\<forall>p\<in>set (posts (snd (likePost d r))). likesUnique p"
    by (rule likePost_likesUnique)
  then show ?case using Cons.IH by simp
qed

lemma findOneBySlug_save:
  "findOneBySlug ps s = Some p \<Longrightarrow> post_id p' = post_id p \<Longrightarrow> slug p' = s \<Longrightarrow>
     findOneBySlug (save p' ps) s = Some p'"
  unfolding findOneBySlug_def save_def by (induction ps) (auto split: if_splits)

section \<open>Likes\<close>

text \<open>
  Claim C5. If every post of the store holds each user at most once in its likes, then
  after any sequence of like requests, by any users on any posts, every post of the
  store still holds each user at most once in its likes. A single like request on an
  existing post either removes all entries of the requester, when there is one, or
  appends one entry for the requester, when there is none.
\<close>

theorem likePosts_likesUnique:
  assumes "\<forall>p\<in>set (posts d). likesUnique p"
  shows "(\<forall>p\<in>set (posts (likePosts d rs)). likesUnique p) \<and>
         (\<forall>p u. findById (posts d) (params_id r) = Some p \<and> req_user r = Some u \<longrightarrow>
            map_option likes (findById (posts (snd (likePost d r))) (params_id r)) =
              Some (if uid u \<in> like_user ` set (likes p)
                    then filter (\<lambda>l. like_user l \<noteq> uid u) (likes p)
                    else likes p @ [\<lparr>like_user = uid u\<rparr>]))"
proof
  show "\<forall>p\<in>set (posts (likePosts d rs)). likesUnique p"
    using assms by (rule likePosts_preserve)
next
  show "\<forall>p u. findById (posts d) (params_id r) = Some p \<and> req_user r = Some u \<longrightarrow>
            map_option likes (findById (posts (snd (likePost d r))) (params_id r)) =
              Some (if uid u \<in> like_user ` set (likes p)
                    then filter (\<lambda>l. like_user l \<noteq> uid u) (likes p)
                    else likes p @ [\<lparr>like_user = uid u\<rparr>])"
  proof (intro allI impI)
    fix p u
    assume a: "findById (posts d) (params_id r) = Some p \<and> req_user r = Some u"
    then have f: "findById (posts d) (params_id r) = Some p" and u: "req_user r = Some u"
      by simp_all
    let ?p' = "if list_ex (\<lambda>l. like_user l = uid u) (likes p)
               then p\<lparr>likes := filter (\<lambda>l. like_user l \<noteq> uid u) (likes p)\<rparr>
               else p\<lparr>likes := likes p @ [\<lparr>like_user = uid u\<rparr>]\<rparr>"
    have "post_id ?p' = params_id r" using f by (simp add: findById_SomeD)
    from findById_save [OF f this]
    have "findById (posts (snd (likePost d r))) (params_id r) = Some ?p'"
      using likePost_found [OF f u] by (simp add: Let_def)
    moreover have "list_ex (\<lambda>l. like_user l = uid u) (likes p) =
                   (uid u \<in> like_user ` set (likes p))"
      unfolding list_ex_iff by (metis image_iff)
    ultimately show "map_option likes (findById (posts (snd (likePost d r))) (params_id r)) =
              Some (if uid u \<in> like_user ` set (likes p)
                    then filter (\<lambda>l. like_user l \<noteq> uid u) (likes p)
                    else likes p @ [\<lparr>like_user = uid u\<rparr>])"
      by simp
  qed
qed

text \<open>The invariant on the example store, before and after four like requests.\<close>

theorem likePosts_likesUnique_witness:
  "list_all likesUnique (posts exampleDb) \<and>
   list_all likesUnique (posts (likePosts exampleDb
        [requestBy (Some bob) ''p2'', requestBy (Some carol) ''p2'',
         requestBy (Some bob) ''p1'', requestBy (Some bob) ''p2'']))"
proof -
  have h: "\<forall>p\<in>set (posts exampleDb). likesUnique p"
    by (simp add: example_defs likesUnique_def)
  from likePosts_likesUnique [OF h] h show ?thesis
    unfolding list_all_iff by blast
qed

text \<open>
  Claim C4, as stated, on a post whose likes hold Bob twice, next to Carol: Bob's first
  request removes both of his entries (three likes become one), his second appends one,
  so two requests leave two likes where there were three.
\<close>

theorem like_toggle_twice_counterexample:
  "length (likes twiceLikedPost) = 3 \<and>
   likePost twiceLikedDb (requestBy (Some bob) ''p3'') =
     (Inr \<lparr>message = ''Post unliked'', likesCount = 1, isLiked = False\<rparr>,
      twiceLikedDb\<lparr>posts := [twiceLikedPost\<lparr>likes := [\<lparr>like_user = ''u3''\<rparr>]\<rparr>]\<rparr>) \<and>
   likePost (twiceLikedDb\<lparr>posts := [twiceLikedPost\<lparr>likes := [\<lparr>like_user = ''u3''\<rparr>]\<rparr>]\<rparr>)
       (requestBy (Some bob) ''p3'') =
     (Inr \<lparr>message = ''Post liked'', likesCount = 2, isLiked = True\<rparr>,
      twiceLikedDb\<lparr>posts := [twiceLikedPost\<lparr>likes :=
         [\<lparr>like_user = ''u3''\<rparr>, \<lparr>like_user = ''u2''\<rparr>]\<rparr>]\<rparr>)"
  by (simp add: likePost_def findById_def save_def twiceLikedPost_def twiceLikedDb_def
      Let_def example_defs)

text \<open>
  Claim C4, amended. On an existing post whose likes hold the requester at most once (as
  they do when they hold each user at most once, \<open>likesUnique_likedTimes\<close>), two like
  requests in a row by the same authenticated user both succeed; each one changes the
  number of likes by exactly one (one removal when the user was in the likes, one
  append otherwise) and reports the new flag and the new count; after the second one
  the count is the original count and the same users like the post, the second answer
  reports the flag the user started with (false when the user had not liked the post),
  and in that case the likes are the original list.
\<close>


theorem like_toggle_twice:
  assumes found: "findById (posts d) (params_id req) = Some p"
    and auth: "req_user req = Some u"
    and once: "likedTimes p (uid u) \<le> 1"
    and first: "likePost d req = (r1, d1)"
    and second: "likePost d1 req = (r2, d2)"
  shows "\<exists>res1 res2 p1 p2.
           r1 = Inr res1 \<and> r2 = Inr res2 \<and>
           findById (posts d1) (params_id req) = Some p1 \<and>
           findById (posts d2) (params_id req) = Some p2 \<and>
           length (likes p1) =
             (if uid u \<in> set (map like_user (likes p))
              then length (likes p) - 1 else length (likes p) + 1) \<and>
           isLiked res1 = (uid u \<in> set (map like_user (likes p1))) \<and>
           isLiked res1 = (uid u \<notin> set (map like_user (likes p))) \<and>
           likesCount res1 = length (likes p1) \<and>
           isLiked res2 = (uid u \<in> set (map like_user (likes p2))) \<and>
           isLiked res2 = (uid u \<in> set (map like_user (likes p))) \<and>
           likesCount res2 = length (likes p2) \<and>
           length (likes p2) = length (likes p) \<and>
           set (map like_user (likes p2)) = set (map like_user (likes p)) \<and>
           (uid u \<notin> set (map like_user (likes p)) \<longrightarrow> likes p2 = likes p)"
proof -
  let ?i = "params_id req"
  let ?liked = "list_ex (\<lambda>l. like_user l = uid u) (likes p)"
  let ?p1 = "if ?liked
             then p\<lparr>likes := filter (\<lambda>l. like_user l \<noteq> uid u) (likes p)\<rparr>
             else p\<lparr>likes := likes p @ [\<lparr>like_user = uid u\<rparr>]\<rparr>"
  let ?liked1 = "list_ex (\<lambda>l. like_user l = uid u) (likes ?p1)"
  let ?p2 = "if ?liked1
             then ?p1\<lparr>likes := filter (\<lambda>l. like_user l \<noteq> uid u) (likes ?p1)\<rparr>
             else ?p1\<lparr>likes := likes ?p1 @ [\<lparr>like_user = uid u\<rparr>]\<rparr>"
  have idp: "post_id p = ?i" using found by (simp add: findById_SomeD)
  have id1: "post_id ?p1 = ?i" using idp by simp
  have id2: "post_id ?p2 = ?i" using idp by simp
  have step1: "likePost d req =
      (Inr \<lparr>message = (if ?liked then ''Post unliked'' else ''Post liked''),
            likesCount = length (likes ?p1), isLiked = \<not> ?liked\<rparr>,
       d\<lparr>posts := save ?p1 (posts d)\<rparr>)"
    using likePost_found [OF found auth] by (simp add: Let_def)
  then have d1: "d1 = d\<lparr>posts := save ?p1 (posts d)\<rparr>"
    and r1: "r1 = Inr \<lparr>message = (if ?liked then ''Post unliked'' else ''Post liked''),
            likesCount = length (likes ?p1), isLiked = \<not> ?liked\<rparr>"
    using first by simp_all
  have found1: "findById (posts d1) ?i = Some ?p1"
    unfolding d1 using findById_save [OF found id1] by simp
  have step2: "likePost d1 req =
      (Inr \<lparr>message = (if ?liked1 then ''Post unliked'' else ''Post liked''),
            likesCount = length (likes ?p2), isLiked = \<not> ?liked1\<rparr>,
       d1\<lparr>posts := save ?p2 (posts d1)\<rparr>)"
    using likePost_found [OF found1 auth] by (simp add: Let_def)
  then have d2: "d2 = d1\<lparr>posts := save ?p2 (posts d1)\<rparr>"
    and r2: "r2 = Inr \<lparr>message = (if ?liked1 then ''Post unliked'' else ''Post liked''),
            likesCount = length (likes ?p2), isLiked = \<not> ?liked1\<rparr>"
    using second by simp_all
  have found2: "findById (posts d2) ?i = Some ?p2"
    unfolding d2 using findById_save [OF found1 id2] by simp
  show ?thesis
  proof (cases "uid u \<in> like_user ` set (likes p)")
    case True
    then have len: "Suc (length (filter (\<lambda>l. like_user l \<noteq> uid u) (likes p))) = length (likes p)"
      using length_filter_once [of like_user "uid u" "likes p"] once
      by (simp add: likedTimes_def)
    have l1: "?liked" using True by (auto simp: list_ex_iff)
    have l2: "\<not> ?liked1" using l1 by (auto simp: list_ex_iff)
    show ?thesis
      apply (rule exI [of _ "\<lparr>message = ''Post unliked'',
            likesCount = length (likes ?p1), isLiked = False\<rparr>"])
      apply (rule exI [of _ "\<lparr>message = ''Post liked'',
            likesCount = length (likes ?p2), isLiked = True\<rparr>"])
      apply (rule exI [of _ ?p1])
      apply (rule exI [of _ ?p2])
      using True l1 l2 len r1 r2 found1 found2 by auto
  next
    case False
    have l1: "\<not> ?liked" using False by (auto simp: list_ex_iff image_iff)
    have l2: "?liked1" using l1 by (auto simp: list_ex_iff)
    have same: "filter (\<lambda>l. like_user l \<noteq> uid u) (likes p) = likes p"
    proof -
      have "\<forall>l\<in>set (likes p). like_user l \<noteq> uid u"
        using False by (auto simp: image_iff)
      then show ?thesis by (simp add: filter_id_conv)
    qed
    show ?thesis
      apply (rule exI [of _ "\<lparr>message = ''Post liked'',
            likesCount = length (likes ?p1), isLiked = True\<rparr>"])
      apply (rule exI [of _ "\<lparr>message = ''Post unliked'',
            likesCount = length (likes ?p2), isLiked = False\<rparr>"])
      apply (rule exI [of _ ?p1])
      apply (rule exI [of _ ?p2])
      using False l1 l2 same r1 r2 found1 found2 by auto
  qed
qed

text \<open>Bob, who has not liked the published post, likes and unlikes it.\<close>

theorem like_toggle_twice_witness:
  "findById (posts exampleDb) (params_id (requestBy (Some bob) ''p2'')) = Some publishedPost \<and>
   req_user (requestBy (Some bob) ''p2'') = Some bob \<and>
   likedTimes publishedPost (uid bob) \<le> 1 \<and>
   (\<exists>res1 res2 p2.
      fst (likePost exampleDb (requestBy (Some bob) ''p2'')) = Inr res1 \<and>
      fst (likePost (snd (likePost exampleDb (requestBy (Some bob) ''p2'')))
             (requestBy (Some bob) ''p2'')) = Inr res2 \<and>
      findById (posts (snd (likePost (snd (likePost exampleDb (requestBy (Some bob) ''p2'')))
                              (requestBy (Some bob) ''p2''))))
        (params_id (requestBy (Some bob) ''p2'')) = Some p2 \<and>
      isLiked res1 \<and> \<not> isLiked res2 \<and>
      likesCount res2 = length (likes publishedPost) \<and>
      likes p2 = likes publishedPost)"
proof -
  let ?req = "requestBy (Some bob) ''p2''"
  let ?s1 = "likePost exampleDb ?req"
  let ?s2 = "likePost (snd ?s1) ?req"
  have found: "findById (posts exampleDb) (params_id ?req) = Some publishedPost"
    by (simp add: findById_def example_defs)
  have auth: "req_user ?req = Some bob"
    by (simp add: requestBy_def)
  have once: "likedTimes publishedPost (uid bob) \<le> 1"
    by (simp add: likedTimes_def publishedPost_def bob_def)
  have notLiked: "uid bob \<notin> set (map like_user (likes publishedPost))"
    by (simp add: bob_def publishedPost_def)
  have s1: "?s1 = (fst ?s1, snd ?s1)" and s2: "?s2 = (fst ?s2, snd ?s2)"
    by simp_all
  from like_toggle_twice [OF found auth once s1 s2] notLiked
  have "\<exists>res1 res2 p2.
      fst ?s1 = Inr res1 \<and> fst ?s2 = Inr res2 \<and>
      findById (posts (snd ?s2)) (params_id ?req) = Some p2 \<and>
      isLiked res1 \<and> \<not> isLiked res2 \<and>
      likesCount res2 = length (likes publishedPost) \<and>
      likes p2 = likes publishedPost"
    by fastforce
  with found auth once show ?thesis by blast
qed

section \<open>Comments\<close>

lemma trim_Nil: "trim [] = []"
  by (simp add: trim_def)

lemma trim_example: "trim ''  hi  '' = ''hi''"
  by (simp add: trim_def isWhiteSpace_def)

lemma dropWhile_all: "(dropWhile P xs = []) = (\<forall>x\<in>set xs. P x)"
  by (induction xs) auto

lemma dropWhile_twice: "dropWhile P (dropWhile P xs) = dropWhile P xs"
  by (induction xs) auto

lemma trim_empty_iff: "trim t = [] \<longleftrightarrow> (\<forall>c\<in>set t. isWhiteSpace c)"
proof -
  let ?s = "dropWhile isWhiteSpace t"
  have "trim t = [] \<longleftrightarrow> dropWhile isWhiteSpace (rev ?s) = []"
    unfolding trim_def by (simp only: rev_is_Nil_conv)
  also have "\<dots> \<longleftrightarrow> (\<forall>c\<in>set ?s. isWhiteSpace c)"
    by (simp only: dropWhile_all set_rev)
  also have "\<dots> \<longleftrightarrow> dropWhile isWhiteSpace ?s = []"
    by (simp only: dropWhile_all)
  also have "\<dots> \<longleftrightarrow> ?s = []"
    by (simp only: dropWhile_twice)
  also have "\<dots> \<longleftrightarrow> (\<forall>c\<in>set t. isWhiteSpace c)"
    by (simp only: dropWhile_all)
  finally show ?thesis .
qed

lemma trim_decompose:
  "\<exists>a b. t = a @ trim t @ b \<and> list_all isWhiteSpace a \<and> list_all isWhiteSpace b"
proof -
  let ?s = "dropWhile isWhiteSpace t"
  let ?b = "rev (takeWhile isWhiteSpace (rev ?s))"
  have "rev (takeWhile isWhiteSpace (rev ?s) @ dropWhile isWhiteSpace (rev ?s)) = ?s"
    by (simp only: takeWhile_dropWhile_id rev_rev_ident)
  then have s: "trim t @ ?b = ?s"
    by (simp only: rev_append trim_def)
  have "takeWhile isWhiteSpace t @ ?s = t"
    by (simp only: takeWhile_dropWhile_id)
  with s have "t = takeWhile isWhiteSpace t @ trim t @ ?b"
    by (simp only:)
  moreover have "list_all isWhiteSpace (takeWhile isWhiteSpace t)"
    by (auto simp: list_all_iff dest: set_takeWhileD)
  moreover have "list_all isWhiteSpace ?b"
    by (auto simp: list_all_iff dest: set_takeWhileD)
  ultimately show ?thesis by blast
qed

lemma last_dropWhile: "dropWhile P xs \<noteq> [] \<Longrightarrow> last (dropWhile P xs) = last xs"
  by (induction xs) (auto split: if_splits)

lemma hd_dropWhile_not: "dropWhile P xs \<noteq> [] \<Longrightarrow> \<not> P (hd (dropWhile P xs))"
  by (induction xs) auto

lemma trim_ends:
  assumes "trim t \<noteq> []"
  shows "\<not> isWhiteSpace (hd (trim t))" and "\<not> isWhiteSpace (last (trim t))"
proof -
  let ?s = "dropWhile isWhiteSpace t"
  let ?d = "dropWhile isWhiteSpace (rev ?s)"
  from assms have d: "?d \<noteq> []"
    by (simp add: trim_def)
  have s: "?s \<noteq> []"
  proof
    assume "?s = []"
    then have "?d = []" by (simp only: rev.simps dropWhile.simps)
    with d show False by blast
  qed
  have "last (trim t) = hd ?d"
    unfolding trim_def using d by (simp only: last_rev)
  then show "\<not> isWhiteSpace (last (trim t))"
    using hd_dropWhile_not [OF d] by simp
  have "hd (trim t) = last ?d"
    unfolding trim_def using d by (simp only: hd_rev)
  also have "\<dots> = last (rev ?s)" using d by (rule last_dropWhile)
  also have "\<dots> = hd ?s" using s by (simp only: last_rev)
  finally show "\<not> isWhiteSpace (hd (trim t))"
    using hd_dropWhile_not [OF s] by simp
qed

text \<open>
  Claim C1. With the schema requiring a comment text, a request on an existing post by
  an authenticated user fails with a validation error (status 400) and leaves the store
  unchanged when its text is absent, empty or white space only: the controller refuses
  the absent and the empty text, and the trimmed text of white space is empty, which
  the schema refuses when the post is saved. A text with a character that is not white
  space is stored trimmed, in a comment appended to the post's comments and returned:
  the input is the stored text between two runs of white space, and the stored text
  neither starts nor ends with white space.
\<close>

theorem addComment_validates_text:
  "(b_text (body req) = None \<or> b_text (body req) = Some [] \<longrightarrow>
      addComment commentSchema d req =
        (Inl (ErrorResponse ''Comment text is required'' 400), d)) \<and>
   (b_text (body req) = Some t \<and> t \<noteq> [] \<and> (\<forall>c\<in>set t. isWhiteSpace c) \<and>
    findById (posts d) (params_id req) = Some p \<and> req_user req = Some u \<longrightarrow>
      addComment commentSchema d req = (Inl (Thrown ''ValidationError''), d)) \<and>
   statusCode (ErrorResponse ''Comment text is required'' 400) = 400 \<and>
   statusCode (Thrown ''ValidationError'') = 400 \<and>
   (b_text (body req) = Some t \<and> (\<exists>c\<in>set t. \<not> isWhiteSpace c) \<and>
    findById (posts d) (params_id req) = Some p \<and> req_user req = Some u \<longrightarrow>
      addComment commentSchema d req =
        (Inr \<lparr>comment_user = uid u, comment_text = trim t\<rparr>,
         d\<lparr>posts := save (p\<lparr>comments := comments p @
               [\<lparr>comment_user = uid u, comment_text = trim t\<rparr>]\<rparr>) (posts d)\<rparr>) \<and>
      findById (posts (snd (addComment commentSchema d req))) (params_id req) =
        Some (p\<lparr>comments := comments p @
               [\<lparr>comment_user = uid u, comment_text = trim t\<rparr>]\<rparr>) \<and>
      (\<exists>a b. t = a @ trim t @ b \<and> list_all isWhiteSpace a \<and> list_all isWhiteSpace b) \<and>
      \<not> isWhiteSpace (hd (trim t)) \<and> \<not> isWhiteSpace (last (trim t)))"
proof (intro conjI impI)
  assume "b_text (body req) = None \<or> b_text (body req) = Some []"
  then show "addComment commentSchema d req =
        (Inl (ErrorResponse ''Comment text is required'' 400), d)"
    by (auto simp: addComment_def)
next
  assume a: "b_text (body req) = Some t \<and> t \<noteq> [] \<and> (\<forall>c\<in>set t. isWhiteSpace c) \<and>
    findById (posts d) (params_id req) = Some p \<and> req_user req = Some u"
  then have "trim t = []" by (simp add: trim_empty_iff)
  with a show "addComment commentSchema d req = (Inl (Thrown ''ValidationError''), d)"
    by (simp add: addComment_def commentSchema_def Let_def)
next
  let ?c = "\<lparr>comment_user = uid u, comment_text = trim t\<rparr>"
  assume a: "b_text (body req) = Some t \<and> (\<exists>c\<in>set t. \<not> isWhiteSpace c) \<and>
    findById (posts d) (params_id req) = Some p \<and> req_user req = Some u"
  then have tr: "trim t \<noteq> []" by (simp add: trim_empty_iff)
  then have ne: "t \<noteq> []" using trim_Nil by auto
  from a have f: "findById (posts d) (params_id req) = Some p" by simp
  from a tr ne show r: "addComment commentSchema d req =
        (Inr ?c, d\<lparr>posts := save (p\<lparr>comments := comments p @ [?c]\<rparr>) (posts d)\<rparr>)"
    by (simp add: addComment_def commentSchema_def Let_def)
  have "post_id (p\<lparr>comments := comments p @ [?c]\<rparr>) = params_id req"
    using f by (simp add: findById_SomeD)
  from findById_save [OF f this]
  show "findById (posts (snd (addComment commentSchema d req))) (params_id req) =
        Some (p\<lparr>comments := comments p @ [?c]\<rparr>)"
    by (simp add: r)
  show "\<exists>a b. t = a @ trim t @ b \<and> list_all isWhiteSpace a \<and> list_all isWhiteSpace b"
    by (rule trim_decompose)
  show "\<not> isWhiteSpace (hd (trim t))" and "\<not> isWhiteSpace (last (trim t))"
    using trim_ends [OF tr] by simp_all
qed simp_all

text \<open>
  The empty text and a text of two spaces are refused; the text \<^verbatim>\<open>"  hi  "\<close> is stored
  as \<^verbatim>\<open>"hi"\<close>.
\<close>

theorem addComment_validates_text_witness:
  "b_text (body (commentRequest bob ''p2'' [])) = Some [] \<and>
   addComment commentSchema exampleDb (commentRequest bob ''p2'' []) =
     (Inl (ErrorResponse ''Comment text is required'' 400), exampleDb) \<and>
   b_text (body (commentRequest bob ''p2'' ''  '')) = Some ''  '' \<and>
   list_all isWhiteSpace ''  '' \<and>
   findById (posts exampleDb) (params_id (commentRequest bob ''p2'' ''  '')) =
     Some publishedPost \<and>
   req_user (commentRequest bob ''p2'' ''  '') = Some bob \<and>
   addComment commentSchema exampleDb (commentRequest bob ''p2'' ''  '') =
     (Inl (Thrown ''ValidationError''), exampleDb) \<and>
   b_text (body (commentRequest bob ''p2'' ''  hi  '')) = Some ''  hi  '' \<and>
   \<not> isWhiteSpace CHR ''h'' \<and>
   fst (addComment commentSchema exampleDb (commentRequest bob ''p2'' ''  hi  '')) =
     Inr \<lparr>comment_user = ''u2'', comment_text = ''hi''\<rparr> \<and>
   map_option comments
     (findById (posts (snd (addComment commentSchema exampleDb
        (commentRequest bob ''p2'' ''  hi  ''))))
       (params_id (commentRequest bob ''p2'' ''  hi  ''))) =
     Some [\<lparr>comment_user = ''u2'', comment_text = ''hi''\<rparr>]"
proof -
  let ?e = "commentRequest bob ''p2'' []"
  let ?w = "commentRequest bob ''p2'' ''  ''"
  let ?r = "commentRequest bob ''p2'' ''  hi  ''"
  have e: "b_text (body ?e) = Some []" by (simp add: commentRequest_def)
  have w: "b_text (body ?w) = Some ''  ''" by (simp add: commentRequest_def)
  have t: "b_text (body ?r) = Some ''  hi  ''" by (simp add: commentRequest_def)
  have ws: "list_all isWhiteSpace ''  ''" by (simp add: isWhiteSpace_def)
  then have ws': "\<forall>c\<in>set ''  ''. isWhiteSpace c" by (simp only: list_all_iff)
  have h: "\<not> isWhiteSpace CHR ''h''" by (simp add: isWhiteSpace_def)
  then have h': "\<exists>c\<in>set ''  hi  ''. \<not> isWhiteSpace c" by simp
  have tr: "trim ''  hi  '' = ''hi''" by (rule trim_example)
  have fw: "findById (posts exampleDb) (params_id ?w) = Some publishedPost"
    and f: "findById (posts exampleDb) (params_id ?r) = Some publishedPost"
    by (simp_all add: findById_def commentRequest_def example_defs)
  have uw: "req_user ?w = Some bob" and u: "req_user ?r = Some bob"
    by (simp_all add: commentRequest_def requestBy_def)
  have ne: "''  '' \<noteq> []" by simp
  have c: "comments publishedPost = []" "uid bob = ''u2''"
    by (simp_all add: publishedPost_def bob_def)
  from addComment_validates_text [of ?e exampleDb] e
  have r1: "addComment commentSchema exampleDb ?e =
     (Inl (ErrorResponse ''Comment text is required'' 400), exampleDb)"
    by blast
  from addComment_validates_text [of ?w exampleDb "''  ''" publishedPost bob] w ne ws' fw uw
  have r2: "addComment commentSchema exampleDb ?w = (Inl (Thrown ''ValidationError''), exampleDb)"
    by blast
  from addComment_validates_text [of ?r exampleDb "''  hi  ''" publishedPost bob] t h' f u
  have r3: "addComment commentSchema exampleDb ?r =
        (Inr \<lparr>comment_user = uid bob, comment_text = trim ''  hi  ''\<rparr>,
         exampleDb\<lparr>posts := save (publishedPost\<lparr>comments := comments publishedPost @
               [\<lparr>comment_user = uid bob, comment_text = trim ''  hi  ''\<rparr>]\<rparr>) (posts exampleDb)\<rparr>)"
    and r4: "findById (posts (snd (addComment commentSchema exampleDb ?r))) (params_id ?r) =
        Some (publishedPost\<lparr>comments := comments publishedPost @
               [\<lparr>comment_user = uid bob, comment_text = trim ''  hi  ''\<rparr>]\<rparr>)"
    by blast+
  from r3 have r3': "fst (addComment commentSchema exampleDb ?r) =
     Inr \<lparr>comment_user = ''u2'', comment_text = ''hi''\<rparr>"
    by (simp add: tr c)
  from r4 have r4': "map_option comments
     (findById (posts (snd (addComment commentSchema exampleDb ?r))) (params_id ?r)) =
     Some [\<lparr>comment_user = ''u2'', comment_text = ''hi''\<rparr>]"
    by (simp add: tr c)
  from e r1 w ws fw uw r2 t h r3' r4' show ?thesis by blast
qed

text \<open>
  Claim C8. On an existing post, whatever its status and whoever its author, a like
  request by an authenticated user succeeds and stores the post with the requester's
  like toggled and nothing else changed; a comment request with a text that is not white
  space only succeeds and stores the post with the comment appended and nothing else
  changed. A like request answers \<^verbatim>\<open>Post not found\<close> exactly when the post does not
  exist, and so does a comment request with a non-empty text.
\<close>

theorem engagement_ignores_status:
  "(findById (posts d) (params_id req) = Some p \<and> req_user req = Some u \<longrightarrow>
      (let newLikes = (if uid u \<in> like_user ` set (likes p)
                       then filter (\<lambda>l. like_user l \<noteq> uid u) (likes p)
                       else likes p @ [\<lparr>like_user = uid u\<rparr>])
       in likePost d req =
            (Inr \<lparr>message = (if uid u \<in> like_user ` set (likes p)
                              then ''Post unliked'' else ''Post liked''),
                  likesCount = length newLikes,
                  isLiked = (uid u \<notin> like_user ` set (likes p))\<rparr>,
             d\<lparr>posts := save (p\<lparr>likes := newLikes\<rparr>) (posts d)\<rparr>) \<and>
          findById (posts (snd (likePost d req))) (params_id req) =
            Some (p\<lparr>likes := newLikes\<rparr>))) \<and>
   (findById (posts d) (params_id req) = Some p \<and> req_user req = Some u \<and>
    b_text (body req) = Some t \<and> (\<exists>c\<in>set t. \<not> isWhiteSpace c) \<longrightarrow>
      addComment commentSchema d req =
        (Inr \<lparr>comment_user = uid u, comment_text = trim t\<rparr>,
         d\<lparr>posts := save (p\<lparr>comments := comments p @
               [\<lparr>comment_user = uid u, comment_text = trim t\<rparr>]\<rparr>) (posts d)\<rparr>) \<and>
      findById (posts (snd (addComment commentSchema d req))) (params_id req) =
        Some (p\<lparr>comments := comments p @
               [\<lparr>comment_user = uid u, comment_text = trim t\<rparr>]\<rparr>)) \<and>
   (fst (likePost d req) = Inl (ErrorResponse ''Post not found'' 404)) =
     (findById (posts d) (params_id req) = None) \<and>
   (b_text (body req) = Some t \<and> t \<noteq> [] \<longrightarrow>
      (fst (addComment v d req) = Inl (ErrorResponse ''Post not found'' 404)) =
        (findById (posts d) (params_id req) = None))"
proof (intro conjI impI)
  assume a: "findById (posts d) (params_id req) = Some p \<and> req_user req = Some u"
  then have f: "findById (posts d) (params_id req) = Some p" and u: "req_user req = Some u"
    by simp_all
  let ?new = "if uid u \<in> like_user ` set (likes p)
              then filter (\<lambda>l. like_user l \<noteq> uid u) (likes p)
              else likes p @ [\<lparr>like_user = uid u\<rparr>]"
  have liked: "list_ex (\<lambda>l. like_user l = uid u) (likes p) =
                 (uid u \<in> like_user ` set (likes p))"
    unfolding list_ex_iff by (metis image_iff)
  have r: "likePost d req =
            (Inr \<lparr>message = (if uid u \<in> like_user ` set (likes p)
                              then ''Post unliked'' else ''Post liked''),
                  likesCount = length ?new,
                  isLiked = (uid u \<notin> like_user ` set (likes p))\<rparr>,
             d\<lparr>posts := save (p\<lparr>likes := ?new\<rparr>) (posts d)\<rparr>)"
    using likePost_found [OF f u] by (simp add: Let_def liked)
  have "post_id (p\<lparr>likes := ?new\<rparr>) = params_id req"
    using f by (simp add: findById_SomeD)
  from findById_save [OF f this]
  have s: "findById (posts (snd (likePost d req))) (params_id req) = Some (p\<lparr>likes := ?new\<rparr>)"
    by (simp add: r)
  from r s show "let newLikes = (if uid u \<in> like_user ` set (likes p)
                       then filter (\<lambda>l. like_user l \<noteq> uid u) (likes p)
                       else likes p @ [\<lparr>like_user = uid u\<rparr>])
       in likePost d req =
            (Inr \<lparr>message = (if uid u \<in> like_user ` set (likes p)
                              then ''Post unliked'' else ''Post liked''),
                  likesCount = length newLikes,
                  isLiked = (uid u \<notin> like_user ` set (likes p))\<rparr>,
             d\<lparr>posts := save (p\<lparr>likes := newLikes\<rparr>) (posts d)\<rparr>) \<and>
          findById (posts (snd (likePost d req))) (params_id req) =
            Some (p\<lparr>likes := newLikes\<rparr>)"
    unfolding Let_def by (rule conjI)
next
  let ?c = "\<lparr>comment_user = uid u, comment_text = trim t\<rparr>"
  assume a: "findById (posts d) (params_id req) = Some p \<and> req_user req = Some u \<and>
    b_text (body req) = Some t \<and> (\<exists>c\<in>set t. \<not> isWhiteSpace c)"
  then have tr: "trim t \<noteq> []" by (simp add: trim_empty_iff)
  then have ne: "t \<noteq> []" using trim_Nil by auto
  from a have f: "findById (posts d) (params_id req) = Some p" by simp
  from a tr ne show r: "addComment commentSchema d req =
        (Inr ?c, d\<lparr>posts := save (p\<lparr>comments := comments p @ [?c]\<rparr>) (posts d)\<rparr>)"
    by (simp add: addComment_def commentSchema_def Let_def)
  have "post_id (p\<lparr>comments := comments p @ [?c]\<rparr>) = params_id req"
    using f by (simp add: findById_SomeD)
  from findById_save [OF f this]
  show "findById (posts (snd (addComment commentSchema d req))) (params_id req) =
        Some (p\<lparr>comments := comments p @ [?c]\<rparr>)"
    by (simp add: r)
next
  show "(fst (likePost d req) = Inl (ErrorResponse ''Post not found'' 404)) =
     (findById (posts d) (params_id req) = None)"
    by (simp add: likePost_def Let_def split: option.splits)
next
  assume "b_text (body req) = Some t \<and> t \<noteq> []"
  then show "(fst (addComment v d req) = Inl (ErrorResponse ''Post not found'' 404)) =
        (findById (posts d) (params_id req) = None)"
    by (simp add: addComment_def Let_def split: option.splits)
qed

text \<open>
  Bob, neither author nor administrator, likes and comments Alice's draft, which he
  cannot read.
\<close>

theorem engagement_ignores_status_witness:
  "findById (posts exampleDb) (params_id (commentRequest bob ''p1'' ''nice'')) = Some draftPost \<and>
   status draftPost = ''draft'' \<and> author draftPost \<noteq> uid bob \<and> urole bob \<noteq> ''admin'' \<and>
   req_user (commentRequest bob ''p1'' ''nice'') = Some bob \<and>
   b_text (body (commentRequest bob ''p1'' ''nice'')) = Some ''nice'' \<and>
   \<not> isWhiteSpace CHR ''n'' \<and>
   likePost exampleDb (commentRequest bob ''p1'' ''nice'') =
     (Inr \<lparr>message = ''Post liked'', likesCount = 1, isLiked = True\<rparr>,
      exampleDb\<lparr>posts := [draftPost\<lparr>likes := [\<lparr>like_user = ''u2''\<rparr>]\<rparr>, publishedPost]\<rparr>) \<and>
   addComment commentSchema exampleDb (commentRequest bob ''p1'' ''nice'') =
     (Inr \<lparr>comment_user = ''u2'', comment_text = ''nice''\<rparr>,
      exampleDb\<lparr>posts := [draftPost\<lparr>comments := [\<lparr>comment_user = ''u2'',
         comment_text = ''nice''\<rparr>]\<rparr>, publishedPost]\<rparr>) \<and>
   getPost exampleDb (commentRequest bob ''p1'' ''nice'') =
     (Inl (ErrorResponse ''Post not found'' 404), exampleDb)"
proof -
  let ?r = "commentRequest bob ''p1'' ''nice''"
  have f: "findById (posts exampleDb) (params_id ?r) = Some draftPost"
    by (simp add: findById_def commentRequest_def example_defs)
  have facts: "status draftPost = ''draft''" "author draftPost \<noteq> uid bob"
    "urole bob \<noteq> ''admin''"
    by (simp_all add: draftPost_def bob_def)
  have u: "req_user ?r = Some bob" by (simp add: commentRequest_def requestBy_def)
  have t: "b_text (body ?r) = Some ''nice''" by (simp add: commentRequest_def)
  have n: "\<not> isWhiteSpace CHR ''n''" by (simp add: isWhiteSpace_def)
  then have n': "\<exists>c\<in>set ''nice''. \<not> isWhiteSpace c" by simp
  have tr: "trim ''nice'' = ''nice''" by (simp add: trim_def isWhiteSpace_def)
  have vals: "likes draftPost = []" "comments draftPost = []" "uid bob = ''u2''"
    by (simp_all add: draftPost_def bob_def)
  have sv: "save (draftPost\<lparr>likes := [\<lparr>like_user = ''u2''\<rparr>]\<rparr>) (posts exampleDb) =
              [draftPost\<lparr>likes := [\<lparr>like_user = ''u2''\<rparr>]\<rparr>, publishedPost]"
    "save (draftPost\<lparr>comments := [\<lparr>comment_user = ''u2'', comment_text = ''nice''\<rparr>]\<rparr>)
       (posts exampleDb) =
     [draftPost\<lparr>comments := [\<lparr>comment_user = ''u2'', comment_text = ''nice''\<rparr>]\<rparr>,
      publishedPost]"
    by (simp_all add: save_def example_defs)
  note inst = engagement_ignores_status [of exampleDb ?r draftPost bob "''nice''" commentSchema]
  from inst f u have l: "likePost exampleDb ?r =
     (Inr \<lparr>message = ''Post liked'', likesCount = 1, isLiked = True\<rparr>,
      exampleDb\<lparr>posts := [draftPost\<lparr>likes := [\<lparr>like_user = ''u2''\<rparr>]\<rparr>, publishedPost]\<rparr>)"
    by (simp add: Let_def vals sv)
  from inst f u t n' have "addComment commentSchema exampleDb ?r =
        (Inr \<lparr>comment_user = uid bob, comment_text = trim ''nice''\<rparr>,
         exampleDb\<lparr>posts := save (draftPost\<lparr>comments := comments draftPost @
               [\<lparr>comment_user = uid bob, comment_text = trim ''nice''\<rparr>]\<rparr>) (posts exampleDb)\<rparr>)"
    by blast
  then have c: "addComment commentSchema exampleDb ?r =
     (Inr \<lparr>comment_user = ''u2'', comment_text = ''nice''\<rparr>,
      exampleDb\<lparr>posts := [draftPost\<lparr>comments := [\<lparr>comment_user = ''u2'',
         comment_text = ''nice''\<rparr>]\<rparr>, publishedPost]\<rparr>)"
    by (simp add: tr vals sv)
  have g: "getPost exampleDb ?r = (Inl (ErrorResponse ''Post not found'' 404), exampleDb)"
    by (simp add: getPost_def servePost_def findById_def commentRequest_def example_defs)
  from f facts u t n l c g show ?thesis by blast
qed

section \<open>Reading\<close>

lemma servePost_hidden:
  assumes "status p \<noteq> ''published''"
    and "req_user req = None \<or>
         (\<exists>u. req_user req = Some u \<and> uid u \<noteq> author p \<and> urole u \<noteq> ''admin'')"
  shows "servePost d req p = (Inl (ErrorResponse ''Post not found'' 404), d)"
  using assms by (auto simp: servePost_def)

text \<open>
  Claim C3. For a post whose status is not \<^verbatim>\<open>published\<close>, a read by id or by slug from a
  request without identity, or from a user who is neither the author nor an
  administrator, fails with \<^verbatim>\<open>Post not found\<close> (status 404, not 403) and leaves the store
  unchanged: the same answer as for a post that does not exist.
\<close>

theorem unpublished_read_not_found:
  assumes "status p \<noteq> ''published''"
    and "req_user req = None \<or>
         (\<exists>u. req_user req = Some u \<and> uid u \<noteq> author p \<and> urole u \<noteq> ''admin'')"
  shows "(findById (posts d) (params_id req) = Some p \<longrightarrow>
            getPost d req = (Inl (ErrorResponse ''Post not found'' 404), d)) \<and>
         (findOneBySlug (posts d) (params_slug req) = Some p \<longrightarrow>
            getPostBySlug d req = (Inl (ErrorResponse ''Post not found'' 404), d)) \<and>
         (findById (posts d) (params_id req) = None \<longrightarrow>
            getPost d req = (Inl (ErrorResponse ''Post not found'' 404), d)) \<and>
         (findOneBySlug (posts d) (params_slug req) = None \<longrightarrow>
            getPostBySlug d req = (Inl (ErrorResponse ''Post not found'' 404), d)) \<and>
         statusCode (ErrorResponse ''Post not found'' 404) = 404 \<and>
         statusCode (ErrorResponse ''Post not found'' 404) \<noteq> 403"
  using servePost_hidden [OF assms, of d]
  by (simp add: getPost_def getPostBySlug_def)

text \<open>Bob and an anonymous reader ask for Alice's draft; Bob asks for a missing post.\<close>

theorem unpublished_read_not_found_witness:
  "status draftPost \<noteq> ''published'' \<and>
   req_user (requestBy (Some bob) ''p1'') = Some bob \<and>
   uid bob \<noteq> author draftPost \<and> urole bob \<noteq> ''admin'' \<and>
   findById (posts exampleDb) (params_id (requestBy (Some bob) ''p1'')) = Some draftPost \<and>
   getPost exampleDb (requestBy (Some bob) ''p1'') =
     (Inl (ErrorResponse ''Post not found'' 404), exampleDb) \<and>
   getPost exampleDb (requestBy (Some bob) ''p9'') =
     (Inl (ErrorResponse ''Post not found'' 404), exampleDb) \<and>
   findOneBySlug (posts exampleDb)
     (params_slug ((requestBy None [])\<lparr>params_slug := ''notes-on-testing''\<rparr>)) = Some draftPost \<and>
   getPostBySlug exampleDb ((requestBy None [])\<lparr>params_slug := ''notes-on-testing''\<rparr>) =
     (Inl (ErrorResponse ''Post not found'' 404), exampleDb)"
proof -
  let ?r1 = "requestBy (Some bob) ''p1''"
  let ?r2 = "(requestBy None [])\<lparr>params_slug := ''notes-on-testing''\<rparr>"
  have st: "status draftPost \<noteq> ''published''" by (simp add: draftPost_def)
  have u1: "req_user ?r1 = Some bob" by (simp add: requestBy_def)
  have nb: "uid bob \<noteq> author draftPost" "urole bob \<noteq> ''admin''"
    by (simp_all add: bob_def draftPost_def)
  have who1: "req_user ?r1 = None \<or>
         (\<exists>u. req_user ?r1 = Some u \<and> uid u \<noteq> author draftPost \<and> urole u \<noteq> ''admin'')"
    using u1 nb by simp
  have who2: "req_user ?r2 = None \<or>
         (\<exists>u. req_user ?r2 = Some u \<and> uid u \<noteq> author draftPost \<and> urole u \<noteq> ''admin'')"
    by (simp add: requestBy_def)
  have f1: "findById (posts exampleDb) (params_id ?r1) = Some draftPost"
    by (simp add: findById_def example_defs)
  have f2: "findOneBySlug (posts exampleDb) (params_slug ?r2) = Some draftPost"
    by (simp add: findOneBySlug_def example_defs)
  have missing: "getPost exampleDb (requestBy (Some bob) ''p9'') =
     (Inl (ErrorResponse ''Post not found'' 404), exampleDb)"
    by (simp add: getPost_def findById_def example_defs)
  from unpublished_read_not_found [OF st who1, of exampleDb]
       unpublished_read_not_found [OF st who2, of exampleDb] st u1 nb f1 f2 missing
  show ?thesis by simp
qed

lemma servePost_error_keeps_store:
  "servePost d req p = (Inl e, d') \<Longrightarrow> d' = d"
  by (auto simp: servePost_def Let_def split: if_splits)

lemma servePost_counted:
  assumes "status p = ''published'' \<or>
           (\<exists>u. req_user req = Some u \<and> (uid u = author p \<or> urole u = ''admin''))"
    and "req_user req = None \<or> (\<exists>u. req_user req = Some u \<and> uid u \<noteq> author p)"
  shows "servePost d req p =
           (Inr (p\<lparr>views := views p + 1\<rparr>),
            d\<lparr>posts := save (p\<lparr>views := views p + 1\<rparr>) (posts d)\<rparr>)"
  using assms by (auto simp: servePost_def Let_def)

lemma servePost_author:
  assumes "req_user req = Some u" and "uid u = author p"
  shows "servePost d req p = (Inr p, d)"
  using assms by (simp add: servePost_def)

text \<open>
  The handlers, run on a request that carries an identity: a read that passes the
  visibility check stores the post with \<open>views\<close> increased by one unless the identity
  is the author's, and a read that fails leaves the store unchanged.
\<close>

lemma handler_views:
  "(findById (posts d) (params_id req) = Some p \<and>
    (status p = ''published'' \<or>
     (\<exists>u. req_user req = Some u \<and> (uid u = author p \<or> urole u = ''admin''))) \<and>
    (req_user req = None \<or> (\<exists>u. req_user req = Some u \<and> uid u \<noteq> author p)) \<longrightarrow>
      getPost d req =
        (Inr (p\<lparr>views := views p + 1\<rparr>),
         d\<lparr>posts := save (p\<lparr>views := views p + 1\<rparr>) (posts d)\<rparr>) \<and>
      findById (posts (snd (getPost d req))) (params_id req) =
        Some (p\<lparr>views := views p + 1\<rparr>)) \<and>
   (findOneBySlug (posts d) (params_slug req) = Some p \<and>
    (status p = ''published'' \<or>
     (\<exists>u. req_user req = Some u \<and> (uid u = author p \<or> urole u = ''admin''))) \<and>
    (req_user req = None \<or> (\<exists>u. req_user req = Some u \<and> uid u \<noteq> author p)) \<longrightarrow>
      getPostBySlug d req =
        (Inr (p\<lparr>views := views p + 1\<rparr>),
         d\<lparr>posts := save (p\<lparr>views := views p + 1\<rparr>) (posts d)\<rparr>) \<and>
      findOneBySlug (posts (snd (getPostBySlug d req))) (params_slug req) =
        Some (p\<lparr>views := views p + 1\<rparr>)) \<and>
   (findById (posts d) (params_id req) = Some p \<and>
    (\<exists>u. req_user req = Some u \<and> uid u = author p) \<longrightarrow>
      getPost d req = (Inr p, d)) \<and>
   (findOneBySlug (posts d) (params_slug req) = Some p \<and>
    (\<exists>u. req_user req = Some u \<and> uid u = author p) \<longrightarrow>
      getPostBySlug d req = (Inr p, d)) \<and>
   (getPost d req = (Inl e, d') \<longrightarrow> d' = d) \<and>
   (getPostBySlug d req = (Inl e, d') \<longrightarrow> d' = d)"
proof (intro conjI impI)
  assume a: "findById (posts d) (params_id req) = Some p \<and>
    (status p = ''published'' \<or>
     (\<exists>u. req_user req = Some u \<and> (uid u = author p \<or> urole u = ''admin''))) \<and>
    (req_user req = None \<or> (\<exists>u. req_user req = Some u \<and> uid u \<noteq> author p))"
  then have f: "findById (posts d) (params_id req) = Some p" by simp
  from a have s: "servePost d req p =
           (Inr (p\<lparr>views := views p + 1\<rparr>),
            d\<lparr>posts := save (p\<lparr>views := views p + 1\<rparr>) (posts d)\<rparr>)"
    by (intro servePost_counted) simp_all
  with f show g: "getPost d req =
        (Inr (p\<lparr>views := views p + 1\<rparr>),
         d\<lparr>posts := save (p\<lparr>views := views p + 1\<rparr>) (posts d)\<rparr>)"
    by (simp add: getPost_def)
  have "post_id (p\<lparr>views := views p + 1\<rparr>) = params_id req"
    using f by (simp add: findById_SomeD)
  from findById_save [OF f this]
  show "findById (posts (snd (getPost d req))) (params_id req) =
        Some (p\<lparr>views := views p + 1\<rparr>)"
    by (simp add: g)
next
  assume a: "findOneBySlug (posts d) (params_slug req) = Some p \<and>
    (status p = ''published'' \<or>
     (\<exists>u. req_user req = Some u \<and> (uid u = author p \<or> urole u = ''admin''))) \<and>
    (req_user req = None \<or> (\<exists>u. req_user req = Some u \<and> uid u \<noteq> author p))"
  then have f: "findOneBySlug (posts d) (params_slug req) = Some p" by simp
  from a have s: "servePost d req p =
           (Inr (p\<lparr>views := views p + 1\<rparr>),
            d\<lparr>posts := save (p\<lparr>views := views p + 1\<rparr>) (posts d)\<rparr>)"
    by (intro servePost_counted) simp_all
  with f show g: "getPostBySlug d req =
        (Inr (p\<lparr>views := views p + 1\<rparr>),
         d\<lparr>posts := save (p\<lparr>views := views p + 1\<rparr>) (posts d)\<rparr>)"
    by (simp add: getPostBySlug_def)
  have "slug p = params_slug req"
    using f by (auto simp: findOneBySlug_def find_Some_iff)
  then have "findOneBySlug (save (p\<lparr>views := views p + 1\<rparr>) (posts d)) (params_slug req) =
        Some (p\<lparr>views := views p + 1\<rparr>)"
    by (intro findOneBySlug_save [OF f]) simp_all
  then show "findOneBySlug (posts (snd (getPostBySlug d req))) (params_slug req) =
        Some (p\<lparr>views := views p + 1\<rparr>)"
    by (simp add: g)
next
  assume "findById (posts d) (params_id req) = Some p \<and>
    (\<exists>u. req_user req = Some u \<and> uid u = author p)"
  then show "getPost d req = (Inr p, d)"
    by (auto simp: getPost_def servePost_author)
next
  assume "findOneBySlug (posts d) (params_slug req) = Some p \<and>
    (\<exists>u. req_user req = Some u \<and> uid u = author p)"
  then show "getPostBySlug d req = (Inr p, d)"
    by (auto simp: getPostBySlug_def servePost_author)
next
  assume "getPost d req = (Inl e, d')"
  then show "d' = d"
    by (auto simp: getPost_def split: option.splits dest: servePost_error_keeps_store)
next
  assume "getPostBySlug d req = (Inl e, d')"
  then show "d' = d"
    by (auto simp: getPostBySlug_def split: option.splits dest: servePost_error_keeps_store)
qed

lemma routeGetPost_ignores_bearer:
  "routeGetPost d (h\<lparr>bearer := who\<rparr>) = routeGetPost d h"
  by (simp add: routeGetPost_def arrived_def)

text \<open>
  Claim C9, on the code. The read routes never set \<^verbatim>\<open>req.user\<close>, so the handler's test
  for the author cannot succeed: in the claim's own example (Bob reads Alice's published
  post, Alice reads it, Bob reads it again) the views go 1, 2, 3, where the claim says
  1, 1, 2.
\<close>

theorem views_over_routes_example:
  "author publishedPost = uid alice \<and> views publishedPost = 0 \<and>
   routeGetPost exampleDb (httpGet (Some bob) ''p2'') =
     (Inr (publishedPost\<lparr>views := 1\<rparr>),
      exampleDb\<lparr>posts := [draftPost, publishedPost\<lparr>views := 1\<rparr>]\<rparr>) \<and>
   routeGetPost (exampleDb\<lparr>posts := [draftPost, publishedPost\<lparr>views := 1\<rparr>]\<rparr>)
       (httpGet (Some alice) ''p2'') =
     (Inr (publishedPost\<lparr>views := 2\<rparr>),
      exampleDb\<lparr>posts := [draftPost, publishedPost\<lparr>views := 2\<rparr>]\<rparr>) \<and>
   routeGetPost (exampleDb\<lparr>posts := [draftPost, publishedPost\<lparr>views := 2\<rparr>]\<rparr>)
       (httpGet (Some bob) ''p2'') =
     (Inr (publishedPost\<lparr>views := 3\<rparr>),
      exampleDb\<lparr>posts := [draftPost, publishedPost\<lparr>views := 3\<rparr>]\<rparr>)"
  by (simp add: routeGetPost_def arrived_def httpGet_def getPost_def servePost_def
      findById_def save_def Let_def example_defs)

section \<open>Updating and deleting\<close>

text \<open>
  Claim C7. For an authenticated user who is neither the author nor an administrator,
  \<^verbatim>\<open>updatePost\<close> and \<^verbatim>\<open>deletePost\<close> on an existing post fail with status 403 and on a
  missing post with status 404; the store is unchanged in both cases.
\<close>

theorem mutation_needs_owner_or_admin:
  assumes "req_user req = Some u" and "author p \<noteq> uid u" and "urole u \<noteq> ''admin''"
  shows "(findById (posts d) (params_id req) = Some p \<longrightarrow>
            updatePost d req =
              (Inl (ErrorResponse ''Not authorized to update this post'' 403), d) \<and>
            deletePost d req =
              (Inl (ErrorResponse ''Not authorized to delete this post'' 403), d)) \<and>
         (findById (posts d) (params_id req) = None \<longrightarrow>
            updatePost d req = (Inl (ErrorResponse ''Post not found'' 404), d) \<and>
            deletePost d req = (Inl (ErrorResponse ''Post not found'' 404), d)) \<and>
         statusCode (ErrorResponse ''Not authorized to update this post'' 403) = 403 \<and>
         statusCode (ErrorResponse ''Not authorized to delete this post'' 403) = 403 \<and>
         statusCode (ErrorResponse ''Post not found'' 404) = 404"
  using assms by (simp add: updatePost_def deletePost_def)

text \<open>Bob tries to update and to delete Alice's post, and a post that does not exist.\<close>

theorem mutation_needs_owner_or_admin_witness:
  "req_user (requestBy (Some bob) ''p2'') = Some bob \<and>
   author publishedPost \<noteq> uid bob \<and> urole bob \<noteq> ''admin'' \<and>
   findById (posts exampleDb) (params_id (requestBy (Some bob) ''p2'')) = Some publishedPost \<and>
   updatePost exampleDb (requestBy (Some bob) ''p2'') =
     (Inl (ErrorResponse ''Not authorized to update this post'' 403), exampleDb) \<and>
   deletePost exampleDb (requestBy (Some bob) ''p2'') =
     (Inl (ErrorResponse ''Not authorized to delete this post'' 403), exampleDb) \<and>
   findById (posts exampleDb) (params_id (requestBy (Some bob) ''p9'')) = None \<and>
   updatePost exampleDb (requestBy (Some bob) ''p9'') =
     (Inl (ErrorResponse ''Post not found'' 404), exampleDb) \<and>
   deletePost exampleDb (requestBy (Some bob) ''p9'') =
     (Inl (ErrorResponse ''Post not found'' 404), exampleDb)"
proof -
  let ?r = "requestBy (Some bob) ''p2''"
  let ?m = "requestBy (Some bob) ''p9''"
  have u: "req_user ?r = Some bob" and um: "req_user ?m = Some bob"
    by (simp_all add: requestBy_def)
  have nb: "author publishedPost \<noteq> uid bob" and na: "urole bob \<noteq> ''admin''"
    by (simp_all add: bob_def publishedPost_def)
  have f: "findById (posts exampleDb) (params_id ?r) = Some publishedPost"
    by (simp add: findById_def example_defs)
  have m: "findById (posts exampleDb) (params_id ?m) = None"
    by (simp add: findById_def example_defs)
  from mutation_needs_owner_or_admin [OF u nb na, of exampleDb]
       mutation_needs_owner_or_admin [OF um nb na, of exampleDb] u nb na f m
  show ?thesis by simp
qed

text \<open>
  Claim C2, on the code. Alice, the owner of the published post, sends an update whose
  body carries \<^verbatim>\<open>author: "u2"\<close> next to a valid title and content: the update succeeds
  and the stored post's author is Bob, where the claim says it stays Alice.
\<close>

theorem updatePost_author_example:
  "map_option author (findById (posts exampleDb) ''p2'') = Some ''u1'' \<and>
   req_user authorUpdate = Some alice \<and> uid alice = ''u1'' \<and> urole alice = ''user'' \<and>
   b_author (body authorUpdate) = Some ''u2'' \<and>
   fst (updatePost exampleDb authorUpdate) =
     Inr (Some (publishedPost
       \<lparr>title := ''Hello again'',
        content := ''This article has been rewritten and is long enough now.'',
        author := ''u2''\<rparr>)) \<and>
   map_option author (findById (posts (snd (updatePost exampleDb authorUpdate))) ''p2'') =
     Some ''u2''"
  by (simp add: updatePost_def postValidation_def sanitize_def applyUpdate_def trim_def
      isWhiteSpace_def findById_def authorUpdate_def example_defs)

section \<open>Listings\<close>







lemma parseInt_odd: "parseInt ''9007199254740993'' = Finite 9007199254740992"
  by (simp add: parseInt_def isWhiteSpace_def isDigit_def digitsValue_def roundToDouble_def
      excessBits.simps)


lemma large_plus:
  "plus_number (Finite 9007199254740992) (Finite 1) = Finite 9007199254740992"
  by (simp add: roundToDouble_def excessBits.simps)





text \<open>
  Claim C10. When the target user does not exist, \<^verbatim>\<open>getUserPosts\<close> fails with
  \<^verbatim>\<open>User not found\<close> (status 404) whatever the posts collection holds and whatever the
  store's cursor does. The query always selects the target's posts, and it carries
  \<^verbatim>\<open>status = "published"\<close> exactly when the requester is neither the target user nor an
  administrator; when the user exists and the cursor returns, the answer lists the posts
  matching that query.
\<close>

theorem getUserPosts_lookup_and_status:
  "(findUserById (users d) (params_id req) = None \<longrightarrow>
      getUserPosts st (d\<lparr>posts := ps\<rparr>) req = Inl (ErrorResponse ''User not found'' 404)) \<and>
   statusCode (ErrorResponse ''User not found'' 404) = 404 \<and>
   (f_status (userPostsQuery req) = Some ''published'') =
     (\<not> (\<exists>u. req_user req = Some u \<and> (uid u = params_id req \<or> urole u = ''admin''))) \<and>
   (f_status (userPostsQuery req) = None) =
     (\<exists>u. req_user req = Some u \<and> (uid u = params_id req \<or> urole u = ''admin'')) \<and>
   f_author (userPostsQuery req) = Some (params_id req) \<and>
   matchesPost st (userPostsQuery req) p =
     (author p = params_id req \<and>
      (status p = ''published'' \<or>
       (\<exists>u. req_user req = Some u \<and> (uid u = params_id req \<or> urole u = ''admin'')))) \<and>
   (findUserById (users d) (params_id req) = Some usr \<and>
    postCursor st (''createdAt'', - 1) (limitParam req) (startIndex req)
      (filter (matchesPost st (userPostsQuery req)) (posts d)) = Inr found \<longrightarrow>
      getUserPosts st d req =
        Inr \<lparr>res_count = length found,
             res_total =
               roundToDouble (int (length (filter (matchesPost st (userPostsQuery req))
                 (posts d)))),
             res_pagination = None,
             res_data = found\<rparr>)"
proof (intro conjI impI)
  assume "findUserById (users d) (params_id req) = None"
  then show "getUserPosts st (d\<lparr>posts := ps\<rparr>) req = Inl (ErrorResponse ''User not found'' 404)"
    by (simp add: getUserPosts_def Let_def)
next
  show "(f_status (userPostsQuery req) = Some ''published'') =
     (\<not> (\<exists>u. req_user req = Some u \<and> (uid u = params_id req \<or> urole u = ''admin'')))"
    by (cases "req_user req") (auto simp: userPostsQuery_def)
next
  show "(f_status (userPostsQuery req) = None) =
     (\<exists>u. req_user req = Some u \<and> (uid u = params_id req \<or> urole u = ''admin''))"
    by (cases "req_user req") (auto simp: userPostsQuery_def)
next
  show "matchesPost st (userPostsQuery req) p =
     (author p = params_id req \<and>
      (status p = ''published'' \<or>
       (\<exists>u. req_user req = Some u \<and> (uid u = params_id req \<or> urole u = ''admin''))))"
    by (cases "req_user req") (auto simp: userPostsQuery_def matchesPost_def)
next
  assume "findUserById (users d) (params_id req) = Some usr \<and>
    postCursor st (''createdAt'', - 1) (limitParam req) (startIndex req)
      (filter (matchesPost st (userPostsQuery req)) (posts d)) = Inr found"
  then show "getUserPosts st d req =
        Inr \<lparr>res_count = length found,
             res_total =
               roundToDouble (int (length (filter (matchesPost st (userPostsQuery req))
                 (posts d)))),
             res_pagination = None,
             res_data = found\<rparr>"
    by (simp add: getUserPosts_def countDocuments_def Let_def)
qed (simp_all add: userPostsQuery_def)

text \<open>
  A missing user; Bob, Alice, Carol and an anonymous reader asking for Alice's posts.
\<close>

theorem getUserPosts_lookup_and_status_witness:
  "findUserById (users exampleDb) (params_id (requestBy (Some bob) ''u9'')) = None \<and>
   getUserPosts exampleStore exampleDb (requestBy (Some bob) ''u9'') =
     Inl (ErrorResponse ''User not found'' 404) \<and>
   f_status (userPostsQuery (requestBy (Some bob) ''u1'')) = Some ''published'' \<and>
   f_status (userPostsQuery (requestBy (Some alice) ''u1'')) = None \<and>
   f_status (userPostsQuery (requestBy (Some carol) ''u1'')) = None \<and>
   f_status (userPostsQuery (requestBy None ''u1'')) = Some ''published'' \<and>
   getUserPosts exampleStore exampleDb (requestBy (Some bob) ''u1'') =
     Inr \<lparr>res_count = 1, res_total = Finite 1, res_pagination = None,
          res_data = [publishedPost]\<rparr> \<and>
   getUserPosts exampleStore exampleDb (requestBy (Some alice) ''u1'') =
     Inr \<lparr>res_count = 2, res_total = Finite 2, res_pagination = None,
          res_data = [draftPost, publishedPost]\<rparr>"
proof -
  let ?m = "requestBy (Some bob) ''u9''"
  let ?b = "requestBy (Some bob) ''u1''"
  let ?a = "requestBy (Some alice) ''u1''"
  have none: "findUserById (users exampleDb) (params_id ?m) = None"
    by (simp add: findUserById_def example_defs)
  have same: "exampleDb\<lparr>posts := posts exampleDb\<rparr> = exampleDb" by simp
  from getUserPosts_lookup_and_status [of exampleDb ?m exampleStore "posts exampleDb"] none
  have r0: "getUserPosts exampleStore exampleDb ?m = Inl (ErrorResponse ''User not found'' 404)"
    by (simp only: same)
  have qb: "f_status (userPostsQuery ?b) = Some ''published''"
    using getUserPosts_lookup_and_status [of exampleDb ?b]
    by (simp add: example_defs)
  have qa: "f_status (userPostsQuery ?a) = None"
    using getUserPosts_lookup_and_status [of exampleDb ?a]
    by (simp add: example_defs)
  have qc: "f_status (userPostsQuery (requestBy (Some carol) ''u1'')) = None"
    using getUserPosts_lookup_and_status [of exampleDb "requestBy (Some carol) ''u1''"]
    by (simp add: example_defs)
  have qn: "f_status (userPostsQuery (requestBy None ''u1'')) = Some ''published''"
    using getUserPosts_lookup_and_status [of exampleDb "requestBy None ''u1''"]
    by (simp add: example_defs)
  have rb: "getUserPosts exampleStore exampleDb ?b =
     Inr \<lparr>res_count = 1, res_total = Finite 1, res_pagination = None,
          res_data = [publishedPost]\<rparr>"
    by (simp add: getUserPosts_def findUserById_def userPostsQuery_def matchesPost_def
        countDocuments_def parseIntOr_def exampleStore_def minus_number_def roundToDouble_def
        Let_def example_defs)
  have ra: "getUserPosts exampleStore exampleDb ?a =
     Inr \<lparr>res_count = 2, res_total = Finite 2, res_pagination = None,
          res_data = [draftPost, publishedPost]\<rparr>"
    by (simp add: getUserPosts_def findUserById_def userPostsQuery_def matchesPost_def
        countDocuments_def parseIntOr_def exampleStore_def minus_number_def roundToDouble_def
        Let_def example_defs)
  from none r0 qb qa qc qn rb ra show ?thesis by simp
qed

end
